theory Spec2Isabelle
  imports Complex_Main
begin

section \<open>LabelBuffer (src/LabelBuffer.ts)\<close>

text \<open>
  JavaScript numbers are modelled as rationals: every coordinate, width and margin the
  label buffer computes with is a finite number, and the operations used (addition,
  subtraction, halving, quartering, \<open>Math.floor\<close>) are taken exactly. \<open>NaN\<close> and the
  infinities are not values of the model.
\<close>

record 'f LabelBounds =
  minX :: rat
  minY :: rat
  maxX :: rat
  maxY :: rat
  feature :: "'f option"

text \<open>
  Modelled from the spec: the spatial index (the package rbush, which is not among the
  sources). The index is the list of its items in insertion order; \<open>collides\<close> tells
  whether any item overlaps the query box and \<open>search\<close> returns the items that do,
  where touching edges count as an overlap.
\<close>

definition intersects :: "('f, 'a) LabelBounds_scheme \<Rightarrow> ('g, 'b) LabelBounds_scheme \<Rightarrow> bool" where
  "intersects a b =
     (minX b \<le> maxX a \<and> minY b \<le> maxY a \<and> minX a \<le> maxX b \<and> minY a \<le> maxY b)"

definition collides :: "'f LabelBounds list \<Rightarrow> 'f LabelBounds \<Rightarrow> bool" where
  "collides t bbox = list_ex (intersects bbox) t"

definition search :: "'f LabelBounds list \<Rightarrow> 'f LabelBounds \<Rightarrow> 'f LabelBounds list" where
  "search t bbox = filter (intersects bbox) t"

definition rb_insert :: "'f LabelBounds list \<Rightarrow> 'f LabelBounds \<Rightarrow> 'f LabelBounds list" where
  "rb_insert t item = t @ [item]"

text \<open>The class: its index and its default margin.\<close>

record 'f LabelBuffer =
  tree :: "'f LabelBounds list"
  margin :: rat

text \<open>\<open>constructor()\<close>: an empty index, margin 5.\<close>

definition new_LabelBuffer :: "'f LabelBuffer" where
  "new_LabelBuffer = \<lparr>tree = [], margin = 5\<rparr>"

definition clear :: "'f LabelBuffer \<Rightarrow> 'f LabelBuffer" where
  "clear b = b\<lparr>tree := []\<rparr>"

text \<open>\<open>project(x, y)\<close> returns \<open>[Math.floor(x / 2), Math.floor(y / 4)]\<close>.\<close>

definition project :: "rat \<Rightarrow> rat \<Rightarrow> rat \<times> rat" where
  "project x y = (of_int \<lfloor>x / 2\<rfloor>, of_int \<lfloor>y / 4\<rfloor>)"

text \<open>
  \<open>_calculateArea(text, x, y, margin = 0)\<close>. The display width of the text comes from
  the package string-width, which is not among the sources: it is the parameter \<open>sw\<close>.
  The object literal has no \<open>feature\<close> property.
\<close>

definition calculateArea :: "(string \<Rightarrow> nat) \<Rightarrow> string \<Rightarrow> rat \<Rightarrow> rat \<Rightarrow> rat \<Rightarrow> 'f LabelBounds" where
  "calculateArea sw text x y m =
     \<lparr>minX = x - m, minY = y - m / 2, maxX = x + m + of_nat (sw text), maxY = y + m / 2,
      feature = None\<rparr>"

text \<open>\<open>_hasSpace(text, x, y)\<close> calls \<open>_calculateArea\<close> with three arguments: the margin is 0.\<close>

definition hasSpace :: "(string \<Rightarrow> nat) \<Rightarrow> 'f LabelBuffer \<Rightarrow> string \<Rightarrow> rat \<Rightarrow> rat \<Rightarrow> bool" where
  "hasSpace sw b text x y = (\<not> collides (tree b) (calculateArea sw text x y 0))"

text \<open>
  \<open>margin || this.margin\<close>: the optional argument is \<open>None\<close> when the caller leaves it
  out; \<open>undefined\<close> and 0 are falsy.
\<close>

definition margin_or :: "rat option \<Rightarrow> rat \<Rightarrow> rat" where
  "margin_or m d = (case m of None \<Rightarrow> d | Some v \<Rightarrow> if v = 0 then d else v)"

text \<open>
  \<open>writeIfPossible(text, x, y, feature, margin?)\<close>. The source returns the index itself
  (truthy) after an insertion and \<open>false\<close> otherwise: the model returns that truth value
  with the buffer after the call.
\<close>

definition writeIfPossible ::
  "(string \<Rightarrow> nat) \<Rightarrow> 'f LabelBuffer \<Rightarrow> string \<Rightarrow> rat \<Rightarrow> rat \<Rightarrow> 'f \<Rightarrow> rat option \<Rightarrow> bool \<times> 'f LabelBuffer" where
  "writeIfPossible sw b text x y f marg =
     (let m = margin_or marg (margin b);
          point = project x y
      in if hasSpace sw b text (fst point) (snd point)
         then let data = calculateArea sw text (fst point) (snd point) m;
                  data' = data\<lparr>feature := Some f\<rparr>
              in (True, b\<lparr>tree := rb_insert (tree b) data'\<rparr>)
         else (False, b))"

text \<open>
  \<open>featuresAt(x, y)\<close>: the body is the single statement
  \<open>this.tree.search({ minX: x, maxX: x, minY: y, maxY: y });\<close> with no \<open>return\<close>, so the
  value of the call is \<open>undefined\<close>, here \<open>None\<close>, whatever the search found.
\<close>

definition featuresAt :: "'f LabelBuffer \<Rightarrow> rat \<Rightarrow> rat \<Rightarrow> 'f LabelBounds list option" where
  "featuresAt b x y =
     (let found = search (tree b) \<lparr>minX = x, minY = y, maxX = x, maxY = y, feature = None\<rparr>
      in None)"

text \<open>
  A run of placement calls within one render cycle, each call given as
  \<open>(text, x, y, feature, margin)\<close>: the buffer after the calls and the calls that were
  accepted, in order.
\<close>

type_synonym 'f call = "string \<times> rat \<times> rat \<times> 'f \<times> rat option"

fun place_all :: "(string \<Rightarrow> nat) \<Rightarrow> 'f LabelBuffer \<Rightarrow> 'f call list \<Rightarrow> 'f LabelBuffer \<times> 'f call list" where
  "place_all sw b [] = (b, [])"
| "place_all sw b ((text, x, y, f, marg) # cs) =
     (case writeIfPossible sw b text x y f marg of
        (ok, b1) \<Rightarrow>
          (case place_all sw b1 cs of
             (b2, acc) \<Rightarrow> (b2, if ok then (text, x, y, f, marg) # acc else acc)))"

text \<open>
  The rectangle a call hands to \<open>collides\<close> and the rectangle it inserts when accepted
  (\<open>d\<close> is the buffer's default margin).
\<close>

fun tested_rect :: "(string \<Rightarrow> nat) \<Rightarrow> 'f call \<Rightarrow> 'f LabelBounds" where
  "tested_rect sw (text, x, y, f, marg) =
     calculateArea sw text (fst (project x y)) (snd (project x y)) 0"

fun stored_rect :: "(string \<Rightarrow> nat) \<Rightarrow> rat \<Rightarrow> 'f call \<Rightarrow> 'f LabelBounds" where
  "stored_rect sw d (text, x, y, f, marg) =
     (calculateArea sw text (fst (project x y)) (snd (project x y)) (margin_or marg d))
       \<lparr>feature := Some f\<rparr>"

section \<open>TileSource (src/TileSource.ts)\<close>

subsection \<open>Values\<close>

text \<open>\<open>const modes = { MBTiles: 1, VectorTile: 2, HTTP: 3 }\<close>; \<open>null\<close> is \<open>None\<close>.\<close>

datatype sourceMode = MBTiles | VectorTile | HTTP

text \<open>
  The errors the class raises, named as the specification names them:
  \<open>NoSourceConfigured\<close> is \<open>Error('no TileSource defined')\<close>,
  \<open>UnsupportedSource\<close> is \<open>Error("source type isn't supported yet")\<close>,
  \<open>MissingDependency\<close> is \<open>Error("MBTiles support must be installed ...")\<close>,
  \<open>UnsupportedMode\<close> is \<open>Error('Unsupported tile mode')\<close>,
  \<open>FetchFailed\<close> is the rejection of \<open>fetch\<close> or the \<open>err\<close> of the database's
  \<open>getTile\<close> callback, \<open>OpenFailed\<close> the \<open>err\<close> of the database constructor's callback,
  \<open>FsError\<close> what \<open>fs.mkdirSync\<close> throws other than \<open>EEXIST\<close>, \<open>TypeError\<close> the
  call of a method on \<open>null\<close> or \<open>undefined\<close>, and \<open>DecodeFailed\<close> a rejection by the
  tile's \<open>load\<close>.
\<close>

datatype error =
    NoSourceConfigured
  | UnsupportedSource
  | MissingDependency
  | UnsupportedMode
  | FetchFailed
  | OpenFailed
  | FsError
  | TypeError
  | DecodeFailed

text \<open>A \<open>Buffer\<close> is a byte string.\<close>

type_synonym buffer = string

text \<open>
  \<open>new Tile(this.styler)\<close> makes a fresh object (Tile.js is not among the sources): a
  tile is its identity, the number of objects allocated before it, and the styler
  handle it was given.
\<close>

record Tile =
  tile_id :: nat
  tile_styler :: "nat option"

text \<open>
  The world outside the class: whether the import of \<open>@mapbox/mbtiles\<close> succeeded,
  \<open>paths.cache\<close>, the file system, the network, the database and the decoder, each as
  the answer it gives. \<open>None\<close> is a thrown error, a rejected promise or an \<open>err\<close>
  argument. The file system is read through these answers only: a file written by
  \<open>_persistTile\<close> is recorded as an event and not read back.
\<close>

datatype mkdir_result = Created | EEXIST | MkdirFailed

record env =
  driver :: bool
  cache_dir :: string
  mkdirSync :: "string \<Rightarrow> mkdir_result"
  readFileSync :: "string \<Rightarrow> buffer option"
  fetch :: "string \<Rightarrow> buffer option"
  db_open :: "string \<Rightarrow> bool"
  db_getTile :: "nat \<Rightarrow> nat \<Rightarrow> nat \<Rightarrow> buffer option"
  decodes :: "buffer option \<Rightarrow> bool"

text \<open>The input and output operations a call issues, in order.\<close>

datatype io =
    ReadFileSync string
  | MkdirSync string
  | WriteFile string buffer
  | Fetch string
  | DbOpen string
  | DbGetTile nat nat nat

text \<open>
  The fields of the class. Two more components are state the methods read and write:
  \<open>persistDownloadedTiles\<close> is \<open>config.persistDownloadedTiles\<close> (a property of the
  module-level configuration object, which \<open>_initPersistence\<close> assigns), and
  \<open>allocated\<close> counts the Tile objects made so far. \<open>undefined\<close> and \<open>null\<close> are
  \<open>None\<close>. A database handle is the path it was opened from.
\<close>

record TileSource =
  source :: "string option"
  cache :: "string \<rightharpoonup> Tile"
  cacheSize :: nat
  cached :: "string list"
  mode :: "sourceMode option"
  mbtiles :: "string option"
  styler :: "nat option"
  persistDownloadedTiles :: bool
  allocated :: nat

text \<open>
  The field initialisers of the class, with \<open>persistDownloadedTiles: true\<close> of
  config.ts.
\<close>

definition new_TileSource :: TileSource where
  "new_TileSource =
     \<lparr>source = None, cache = Map.empty, cacheSize = 0, cached = [], mode = None,
      mbtiles = None, styler = None, persistDownloadedTiles = True, allocated = 0\<rparr>"

subsection \<open>Strings and numbers of the host language\<close>

text \<open>The decimal numeral of a non-negative integer (\<open>toString\<close>, template strings, \<open>join\<close>).\<close>

definition digit :: "nat \<Rightarrow> char" where
  "digit d = ''0123456789'' ! d"

fun string_of_nat :: "nat \<Rightarrow> string" where
  "string_of_nat n =
     (if n < 10 then [digit n] else string_of_nat (n div 10) @ [digit (n mod 10)])"

declare string_of_nat.simps [simp del]

fun join :: "string \<Rightarrow> string list \<Rightarrow> string" where
  "join sep [] = []"
| "join sep [a] = a"
| "join sep (a # b # bs) = a @ sep @ join sep (b # bs)"

definition startsWith :: "string \<Rightarrow> string \<Rightarrow> bool" where
  "startsWith s p = (take (length p) s = p)"

definition endsWith :: "string \<Rightarrow> string \<Rightarrow> bool" where
  "endsWith s p = (length p \<le> length s \<and> drop (length s - length p) s = p)"

text \<open>\<open>path.join\<close> on segments that need no normalisation.\<close>

definition path_join :: "string list \<Rightarrow> string" where
  "path_join segs = join ''/'' segs"

text \<open>
  The numbers of the eviction arithmetic: an integer or \<open>NaN\<close>. \<open>to_number\<close> is the
  conversion of a property value of the cache object: \<open>undefined\<close> (no such property)
  and an object both convert to \<open>NaN\<close>. \<open>to_integer\<close> is the conversion \<open>splice\<close>
  applies to its delete count.
\<close>

datatype jsnum = Num int | NaN

fun to_number :: "Tile option \<Rightarrow> jsnum" where
  "to_number None = NaN"
| "to_number (Some t) = NaN"

fun js_sub :: "jsnum \<Rightarrow> jsnum \<Rightarrow> jsnum" where
  "js_sub (Num a) (Num b) = Num (a - b)"
| "js_sub a b = NaN"

fun js_abs :: "jsnum \<Rightarrow> jsnum" where
  "js_abs (Num a) = Num (abs a)"
| "js_abs NaN = NaN"

fun to_integer :: "jsnum \<Rightarrow> int" where
  "to_integer (Num a) = a"
| "to_integer NaN = 0"

text \<open>\<open>xs.splice(0, d)\<close>: the removed elements, which it returns, and those left in \<open>xs\<close>.\<close>

definition splice0 :: "'a list \<Rightarrow> jsnum \<Rightarrow> 'a list \<times> 'a list" where
  "splice0 xs d =
     (let k = nat (min (max (to_integer d) 0) (int (length xs)))
      in (take k xs, drop k xs))"

text \<open>
  \<open>for (const tile in removed) delete this.cache[tile]\<close>: \<open>for ... in\<close> over an array
  goes through its index names \<open>"0"\<close>, \<open>"1"\<close>, ..., so these are the properties deleted.
\<close>

definition delete_each_index :: "'a list \<Rightarrow> (string \<rightharpoonup> Tile) \<Rightarrow> (string \<rightharpoonup> Tile)" where
  "delete_each_index removed c = fold (\<lambda>i m. m(string_of_nat i := None)) [0..<length removed] c"

subsection \<open>Promises\<close>

text \<open>
  A method runs to its \<open>return\<close> or \<open>throw\<close> without interruption; what it started
  (a database query, a network request, a \<open>then\<close> callback) runs later, after any
  other call the caller makes meanwhile. So each asynchronous method is two functions:
  \<open>_call\<close>, up to the promise it returns, and \<open>_settle\<close>, the callback that settles the
  promise. A promise that waits names the request whose callback is outstanding.
\<close>

datatype request =
    DbTile nat nat nat
  | HttpTile nat nat nat string
  | PersistedTile nat nat nat buffer

datatype promise = Resolved Tile | Rejected error | Waiting request

datatype outcome = Throws error | Returns promise

datatype init_outcome = InitThrows error | InitResolved | InitOpening string

subsection \<open>Initialisation\<close>

text \<open>
  \<open>_createFolder(path)\<close>: true when the directory was made or existed, and the error
  thrown otherwise.
\<close>

definition createFolder :: "env \<Rightarrow> string \<Rightarrow> (error + bool) \<times> io list" where
  "createFolder e path =
     (case mkdirSync e path of
        Created \<Rightarrow> (Inr True, [MkdirSync path])
      | EEXIST \<Rightarrow> (Inr True, [MkdirSync path])
      | MkdirFailed \<Rightarrow> (Inl FsError, [MkdirSync path]))"

definition initPersistence :: "env \<Rightarrow> TileSource \<Rightarrow> TileSource \<times> io list" where
  "initPersistence e s =
     (case createFolder e (cache_dir e) of
        (Inr ok, ios) \<Rightarrow> (s, ios)
      | (Inl err, ios) \<Rightarrow> (s\<lparr>persistDownloadedTiles := False\<rparr>, ios))"

text \<open>
  \<open>init(source)\<close> up to its return: \<open>Promise.resolve()\<close> for a remote source, the
  promise of \<open>loadMBTiles\<close> for a database (the constructor of the driver is called, its
  callback is outstanding), or a thrown error.
\<close>

definition init_call :: "env \<Rightarrow> TileSource \<Rightarrow> string \<Rightarrow> init_outcome \<times> TileSource \<times> io list" where
  "init_call e s src =
     (let s1 = s\<lparr>source := Some src, cache := Map.empty, cacheSize := 16, cached := [],
                 mode := None, mbtiles := None, styler := None\<rparr>
      in if startsWith src ''http'' then
           (case (if persistDownloadedTiles s1 then initPersistence e s1 else (s1, [])) of
              (s2, ios) \<Rightarrow> (InitResolved, s2\<lparr>mode := Some HTTP\<rparr>, ios))
         else if endsWith src ''.mbtiles'' then
           (if \<not> driver e then (InitThrows MissingDependency, s1, [])
            else (InitOpening src, s1\<lparr>mode := Some MBTiles\<rparr>, [DbOpen src]))
         else (InitThrows UnsupportedSource, s1, []))"

text \<open>
  The callback of \<open>loadMBTiles\<close>: \<open>if (err) { reject(err); } this.mbtiles = mbtiles;
  resolve();\<close>. After an error the handle is \<open>undefined\<close> and the promise stays rejected.
\<close>

definition init_settle :: "env \<Rightarrow> TileSource \<Rightarrow> string \<Rightarrow> (error + unit) \<times> TileSource" where
  "init_settle e s src =
     (if db_open e src then (Inr (), s\<lparr>mbtiles := Some src\<rparr>)
      else (Inl OpenFailed, s\<lparr>mbtiles := None\<rparr>))"

text \<open>\<open>await init(source)\<close>.\<close>

definition init :: "env \<Rightarrow> TileSource \<Rightarrow> string \<Rightarrow> (error + unit) \<times> TileSource \<times> io list" where
  "init e s src =
     (case init_call e s src of
        (InitThrows err, s1, ios) \<Rightarrow> (Inl err, s1, ios)
      | (InitResolved, s1, ios) \<Rightarrow> (Inr (), s1, ios)
      | (InitOpening db, s1, ios) \<Rightarrow>
          (case init_settle e s1 db of (r, s2) \<Rightarrow> (r, s2, ios)))"

definition useStyler :: "TileSource \<Rightarrow> nat \<Rightarrow> TileSource" where
  "useStyler s st = s\<lparr>styler := Some st\<rparr>"

subsection \<open>Fetching a tile\<close>

text \<open>\<open>[z, x, y].join('-')\<close>, the name of a tile in the cache.\<close>

definition tile_name :: "nat \<Rightarrow> nat \<Rightarrow> nat \<Rightarrow> string" where
  "tile_name z x y = join ''-'' [string_of_nat z, string_of_nat x, string_of_nat y]"

text \<open>
  Modelled from the spec: \<open>Tile.load(buffer)\<close> (Tile.js is not among the sources). The
  promise it returns resolves to the tile it was called on, "the decoded Tile", when
  the payload decodes; whether it does is the decoder's answer.
\<close>

definition load :: "env \<Rightarrow> Tile \<Rightarrow> buffer option \<Rightarrow> error + Tile" where
  "load e t buf = (if decodes e buf then Inr t else Inl DecodeFailed)"

text \<open>
  \<open>_createTile(z, x, y, buffer)\<close>: the name is pushed and the new tile stored before
  \<open>load\<close> is called.
\<close>

definition createTile ::
  "env \<Rightarrow> TileSource \<Rightarrow> nat \<Rightarrow> nat \<Rightarrow> nat \<Rightarrow> buffer option \<Rightarrow> (error + Tile) \<times> TileSource" where
  "createTile e s z x y buf =
     (let name = tile_name z x y;
          s1 = s\<lparr>cached := cached s @ [name]\<rparr>;
          tile = \<lparr>tile_id = allocated s1, tile_styler = styler s1\<rparr>;
          s2 = s1\<lparr>cache := (cache s1)(name \<mapsto> tile), allocated := Suc (allocated s1)\<rparr>
      in (load e tile buf, s2))"

text \<open>
  The eviction block of \<open>getTile\<close>:
  \<^verbatim>\<open>if (this.cached.length > this.cacheSize) {
    const overflow = Math.abs(this.cacheSize - this.cache.length);
    for (const tile in this.cached.splice(0, overflow)) { delete this.cache[tile]; }
  }\<close>
  \<open>this.cache\<close> is the object of the tiles, so \<open>this.cache.length\<close> is its property of
  that name.
\<close>

definition evict :: "TileSource \<Rightarrow> TileSource" where
  "evict s =
     (if length (cached s) > cacheSize s then
        (let overflow = js_abs (js_sub (Num (int (cacheSize s))) (to_number (cache s ''length'')))
         in case splice0 (cached s) overflow of
              (removed, rest) \<Rightarrow>
                s\<lparr>cached := rest, cache := delete_each_index removed (cache s)\<rparr>)
      else s)"

text \<open>\<open>_getPersited(z, x, y)\<close>: the file's content, or \<open>false\<close> (here \<open>None\<close>).\<close>

definition persisted_path :: "env \<Rightarrow> nat \<Rightarrow> nat \<Rightarrow> nat \<Rightarrow> string" where
  "persisted_path e z x y =
     path_join [cache_dir e, string_of_nat z, string_of_nat x @ ''-'' @ string_of_nat y @ ''.pbf'']"

definition getPersited :: "env \<Rightarrow> nat \<Rightarrow> nat \<Rightarrow> nat \<Rightarrow> buffer option \<times> io list" where
  "getPersited e z x y =
     (readFileSync e (persisted_path e z x y), [ReadFileSync (persisted_path e z x y)])"

text \<open>
  \<open>_persistTile(z, x, y, buffer)\<close>: the folder of the zoom level is made (an error
  other than \<open>EEXIST\<close> is thrown on), then the file is written without waiting.
\<close>

definition persistTile :: "env \<Rightarrow> nat \<Rightarrow> nat \<Rightarrow> nat \<Rightarrow> buffer \<Rightarrow> (error + unit) \<times> io list" where
  "persistTile e z x y buf =
     (case createFolder e (path_join [cache_dir e, string_of_nat z]) of
        (Inl err, ios) \<Rightarrow> (Inl err, ios)
      | (Inr ok, ios) \<Rightarrow> (Inr (), ios @ [WriteFile (persisted_path e z x y) buf]))"

text \<open>
  \<open>_getHTTP(z, x, y)\<close> up to its return: the persisted file is read, and unless it is
  used the request for \<open>this.source + [z, x, y].join('/') + '.pbf'\<close> is sent.
\<close>

definition tile_url :: "TileSource \<Rightarrow> nat \<Rightarrow> nat \<Rightarrow> nat \<Rightarrow> string" where
  "tile_url s z x y =
     (case source s of None \<Rightarrow> ''undefined'' | Some u \<Rightarrow> u)
       @ join ''/'' [string_of_nat z, string_of_nat x, string_of_nat y] @ ''.pbf''"

definition getHTTP_call :: "env \<Rightarrow> TileSource \<Rightarrow> nat \<Rightarrow> nat \<Rightarrow> nat \<Rightarrow> outcome \<times> TileSource \<times> io list" where
  "getHTTP_call e s z x y =
     (case getPersited e z x y of
        (persistedTile, ios) \<Rightarrow>
          (case (if persistDownloadedTiles s then persistedTile else None) of
             Some buf \<Rightarrow> (Returns (Waiting (PersistedTile z x y buf)), s, ios)
           | None \<Rightarrow>
               (Returns (Waiting (HttpTile z x y (tile_url s z x y))), s,
                ios @ [Fetch (tile_url s z x y)])))"

text \<open>
  \<open>_getMBTile(z, x, y)\<close> up to its return: the executor of the promise calls
  \<open>this.mbtiles.getTile\<close>; on a handle that is \<open>null\<close> or \<open>undefined\<close> the call throws
  inside the executor and the promise is rejected.
\<close>

definition getMBTile_call :: "TileSource \<Rightarrow> nat \<Rightarrow> nat \<Rightarrow> nat \<Rightarrow> outcome \<times> TileSource \<times> io list" where
  "getMBTile_call s z x y =
     (case mbtiles s of
        None \<Rightarrow> (Returns (Rejected TypeError), s, [])
      | Some db \<Rightarrow> (Returns (Waiting (DbTile z x y)), s, [DbGetTile z x y]))"

text \<open>\<open>getTile(z, x, y)\<close> up to its return.\<close>

definition getTile_call :: "env \<Rightarrow> TileSource \<Rightarrow> nat \<Rightarrow> nat \<Rightarrow> nat \<Rightarrow> outcome \<times> TileSource \<times> io list" where
  "getTile_call e s z x y =
     (if mode s = None then (Throws NoSourceConfigured, s, [])
      else case cache s (tile_name z x y) of
             Some t \<Rightarrow> (Returns (Resolved t), s, [])
           | None \<Rightarrow>
               (let s1 = evict s
                in case mode s1 of
                     Some MBTiles \<Rightarrow> getMBTile_call s1 z x y
                   | Some HTTP \<Rightarrow> getHTTP_call e s1 z x y
                   | other \<Rightarrow> (Throws UnsupportedMode, s1, [])))"

text \<open>
  The callbacks. For the database: \<open>if (err) { reject(err); }
  resolve(this._createTile(z, x, y, buffer));\<close>, so \<open>_createTile\<close> runs after an error
  too, with \<open>buffer\<close> undefined, and the promise stays rejected. For the network: a
  rejected \<open>fetch\<close> rejects the chain; otherwise the payload is persisted when
  persistence is on, and \<open>_createTile\<close> runs. For a persisted payload: \<open>_createTile\<close>
  runs.
\<close>

definition getTile_settle :: "env \<Rightarrow> TileSource \<Rightarrow> request \<Rightarrow> (error + Tile) \<times> TileSource \<times> io list" where
  "getTile_settle e s r =
     (case r of
        DbTile z x y \<Rightarrow>
          (case db_getTile e z x y of
             None \<Rightarrow> (case createTile e s z x y None of (res, s1) \<Rightarrow> (Inl FetchFailed, s1, []))
           | Some buf \<Rightarrow> (case createTile e s z x y (Some buf) of (res, s1) \<Rightarrow> (res, s1, [])))
      | HttpTile z x y url \<Rightarrow>
          (case fetch e url of
             None \<Rightarrow> (Inl FetchFailed, s, [])
           | Some buf \<Rightarrow>
               (if persistDownloadedTiles s then
                  (case persistTile e z x y buf of
                     (Inl err, ios) \<Rightarrow> (Inl err, s, ios)
                   | (Inr u, ios) \<Rightarrow>
                       (case createTile e s z x y (Some buf) of (res, s1) \<Rightarrow> (res, s1, ios)))
                else (case createTile e s z x y (Some buf) of (res, s1) \<Rightarrow> (res, s1, []))))
      | PersistedTile z x y buf \<Rightarrow>
          (case createTile e s z x y (Some buf) of (res, s1) \<Rightarrow> (res, s1, [])))"

text \<open>\<open>await getTile(z, x, y)\<close>: the call, then its callback before anything else runs.\<close>

definition getTile :: "env \<Rightarrow> TileSource \<Rightarrow> nat \<Rightarrow> nat \<Rightarrow> nat \<Rightarrow> (error + Tile) \<times> TileSource \<times> io list" where
  "getTile e s z x y =
     (case getTile_call e s z x y of
        (Throws err, s1, ios) \<Rightarrow> (Inl err, s1, ios)
      | (Returns (Resolved t), s1, ios) \<Rightarrow> (Inr t, s1, ios)
      | (Returns (Rejected err), s1, ios) \<Rightarrow> (Inl err, s1, ios)
      | (Returns (Waiting r), s1, ios) \<Rightarrow>
          (case getTile_settle e s1 r of (res, s2, ios2) \<Rightarrow> (res, s2, ios @ ios2)))"

text \<open>Awaited calls one after the other: the results and the state after the last.\<close>

fun getTiles :: "env \<Rightarrow> TileSource \<Rightarrow> (nat \<times> nat \<times> nat) list \<Rightarrow> (error + Tile) list \<times> TileSource" where
  "getTiles e s [] = ([], s)"
| "getTiles e s ((z, x, y) # ks) =
     (case getTile e s z x y of
        (r, s1, ios) \<Rightarrow> (case getTiles e s1 ks of (rs, s2) \<Rightarrow> (r # rs, s2)))"

text \<open>
  Calls made one after the other with no callback in between (the caller does not
  await): the promises, the state and the operations issued.
\<close>

fun getTile_calls ::
  "env \<Rightarrow> TileSource \<Rightarrow> (nat \<times> nat \<times> nat) list \<Rightarrow> outcome list \<times> TileSource \<times> io list" where
  "getTile_calls e s [] = ([], s, [])"
| "getTile_calls e s ((z, x, y) # ks) =
     (case getTile_call e s z x y of
        (r, s1, ios) \<Rightarrow>
          (case getTile_calls e s1 ks of (rs, s2, ios2) \<Rightarrow> (r # rs, s2, ios @ ios2)))"

text \<open>The requests to the network or the database among the operations issued.\<close>

fun is_fetch :: "io \<Rightarrow> bool" where
  "is_fetch (Fetch url) = True"
| "is_fetch (DbGetTile z x y) = True"
| "is_fetch other = False"

text \<open>
  The reading of "a locator starting with an HTTP scheme" in the words of the
  specification: the locator begins with \<open>http://\<close> or \<open>https://\<close>.
\<close>

definition has_http_scheme :: "string \<Rightarrow> bool" where
  "has_http_scheme src = (startsWith src ''http://'' \<or> startsWith src ''https://'')"

fun is_waiting :: "outcome \<Rightarrow> bool" where
  "is_waiting (Returns (Waiting r)) = True"
| "is_waiting other = False"

subsection \<open>Two worlds to run the class in\<close>

text \<open>
  \<open>http_env\<close>: no database driver, every directory can be made, nothing is persisted
  yet, every request is answered with a payload that decodes. \<open>db_env\<close>: the driver is
  installed and the database opens, but it holds no tile: every \<open>getTile\<close> of the
  database calls back with an error.
\<close>

definition http_env :: env where
  "http_env =
     \<lparr>driver = False, cache_dir = ''/cache'', mkdirSync = (\<lambda>p. Created),
      readFileSync = (\<lambda>p. None), fetch = (\<lambda>u. Some ''pbf''), db_open = (\<lambda>p. False),
      db_getTile = (\<lambda>z x y. None), decodes = (\<lambda>b. True)\<rparr>"

definition db_env :: env where
  "db_env =
     \<lparr>driver = True, cache_dir = ''/cache'', mkdirSync = (\<lambda>p. Created),
      readFileSync = (\<lambda>p. None), fetch = (\<lambda>u. None), db_open = (\<lambda>p. True),
      db_getTile = (\<lambda>z x y. None), decodes = (\<lambda>b. b \<noteq> None)\<rparr>"

text \<open>The store after \<open>await init('http://mapscii.me/')\<close> and after \<open>await init('foo.mbtiles')\<close>.\<close>

definition http_store :: TileSource where
  "http_store = fst (snd (init http_env new_TileSource ''http://mapscii.me/''))"

definition db_store :: TileSource where
  "db_store = fst (snd (init db_env new_TileSource ''foo.mbtiles''))"

text \<open>Eighteen tiles of one row at zoom level 5, two more than the cache size.\<close>

definition eighteen_keys :: "(nat \<times> nat \<times> nat) list" where
  "eighteen_keys = map (\<lambda>x. (5, x, 0)) [0..<18]"

section \<open>Properties of the label buffer\<close>

subsection \<open>Helper facts\<close>

lemma writeIfPossible_unfold:
  "writeIfPossible sw b text x y f marg =
     (if collides (tree b) (calculateArea sw text (fst (project x y)) (snd (project x y)) 0)
      then (False, b)
      else (True,
            b\<lparr>tree := tree b @
               [(calculateArea sw text (fst (project x y)) (snd (project x y))
                   (margin_or marg (margin b)))\<lparr>feature := Some f\<rparr>]\<rparr>))"
  by (simp add: writeIfPossible_def hasSpace_def rb_insert_def Let_def)

lemma floor_bounds: "rat_of_int \<lfloor>q\<rfloor> \<le> q \<and> q < rat_of_int \<lfloor>q\<rfloor> + 1"
  by linarith

lemma place_all_inv:
  "place_all sw b cs = (b', acc) \<Longrightarrow>
     margin b' = margin b \<and>
     tree b' = tree b @ map (stored_rect sw (margin b)) acc \<and>
     (\<forall>j<length acc.
        (\<forall>r\<in>set (tree b). \<not> intersects (tested_rect sw (acc ! j)) r) \<and>
        (\<forall>i<j. \<not> intersects (tested_rect sw (acc ! j)) (stored_rect sw (margin b) (acc ! i))))"
proof (induction cs arbitrary: b b' acc)
  case Nil
  then show ?case by simp
next
  case (Cons c cs)
  obtain lbl x y f marg where c: "c = (lbl, x, y, f, marg)"
    by (cases c) auto
  obtain ok b1 where w: "writeIfPossible sw b lbl x y f marg = (ok, b1)"
    by fastforce
  obtain b2 acc2 where p: "place_all sw b1 cs = (b2, acc2)"
    by fastforce
  from Cons.prems c w p have b': "b' = b2" and acc: "acc = (if ok then c # acc2 else acc2)"
    by auto
  note ih = Cons.IH [OF p]
  show ?case
  proof (cases ok)
    case False
    with w have "b1 = b"
      by (auto simp: writeIfPossible_unfold split: if_splits)
    with ih False acc b' show ?thesis by simp
  next
    case True
    with w have free: "\<not> collides (tree b) (tested_rect sw c)"
      and b1: "b1 = b\<lparr>tree := tree b @ [stored_rect sw (margin b) c]\<rparr>"
      by (auto simp: writeIfPossible_unfold c split: if_splits)
    from free have free': "\<forall>r\<in>set (tree b). \<not> intersects (tested_rect sw c) r"
      by (auto simp: collides_def list_ex_iff)
    from b1 have m1: "margin b1 = margin b"
      and t1: "tree b1 = tree b @ [stored_rect sw (margin b) c]"
      by simp_all
    have acc': "acc = c # acc2" using acc True by simp
    show ?thesis
    proof (intro conjI allI impI)
      show "margin b' = margin b" using ih m1 b' by simp
      show "tree b' = tree b @ map (stored_rect sw (margin b)) acc"
        using ih m1 t1 b' acc' by simp
    next
      fix j assume j: "j < length acc"
      show "\<forall>r\<in>set (tree b). \<not> intersects (tested_rect sw (acc ! j)) r"
      proof (cases j)
        case 0
        then show ?thesis using free' acc' by simp
      next
        case (Suc k)
        with j acc' have "k < length acc2" by simp
        with ih have "\<forall>r\<in>set (tree b1). \<not> intersects (tested_rect sw (acc2 ! k)) r"
          by blast
        then show ?thesis using t1 Suc acc' by simp
      qed
    next
      fix j i assume j: "j < length acc" and i: "i < j"
      then obtain k where k: "j = Suc k" by (cases j) auto
      with j acc' have kl: "k < length acc2" by simp
      show "\<not> intersects (tested_rect sw (acc ! j)) (stored_rect sw (margin b) (acc ! i))"
      proof (cases i)
        case 0
        from ih kl have "\<forall>r\<in>set (tree b1). \<not> intersects (tested_rect sw (acc2 ! k)) r"
          by blast
        then show ?thesis using t1 k 0 acc' by simp
      next
        case (Suc i')
        with i k have "i' < k" by simp
        with ih kl
        have "\<not> intersects (tested_rect sw (acc2 ! k)) (stored_rect sw (margin b1) (acc2 ! i'))"
          by blast
        then show ?thesis using m1 k Suc acc' by simp
      qed
    qed
  qed
qed

text \<open>
  The default margin is 5 throughout a render cycle of a new buffer: \<open>clear\<close> and
  \<open>writeIfPossible\<close> do not assign it.
\<close>

lemma margin_stays_default:
  "margin (fst (place_all sw (clear (new_LabelBuffer :: 'f LabelBuffer)) cs)) = 5"
proof -
  obtain b acc where p: "place_all sw (clear (new_LabelBuffer :: 'f LabelBuffer)) cs = (b, acc)"
    by (cases "place_all sw (clear (new_LabelBuffer :: 'f LabelBuffer)) cs") auto
  from place_all_inv [OF p] have "margin b = margin (clear (new_LabelBuffer :: 'f LabelBuffer))"
    by simp
  with p show ?thesis
    by (simp add: clear_def new_LabelBuffer_def)
qed

subsection \<open>The claims\<close>

text \<open>
  C2, as amended. Within a render cycle (any run of \<open>writeIfPossible\<close> calls after
  \<open>clear()\<close>), the index holds exactly the margin-expanded rectangles of the accepted
  calls, in order, and the rectangle tested for each accepted call (the text itself,
  with no margin) overlaps none of the rectangles stored before it. The stored
  rectangles themselves may overlap each other.
\<close>

theorem accepted_text_clear_of_stored:
  "place_all sw (clear b0) cs = (b, acc) \<Longrightarrow>
     tree b = map (stored_rect sw (margin b0)) acc \<and>
     (\<forall>j<length acc. \<forall>i<j.
        \<not> intersects (tested_rect sw (acc ! j)) (stored_rect sw (margin b0) (acc ! i)))"
  using place_all_inv [of sw "clear b0" cs b acc] by (simp add: clear_def)

text \<open>
  An instance: of three labels the first two are accepted and the third is rejected;
  the text of the second is clear of the stored rectangle of the first.
\<close>

theorem accepted_text_clear_of_stored_witness:
  "place_all length (clear (new_LabelBuffer :: nat LabelBuffer))
     [(''ab'', 0, 0, 1, None), (''cd'', 16, 0, 2, None), (''ef'', 4, 0, 3, None)] =
     (\<lparr>tree = [\<lparr>minX = - 5, minY = - (5 / 2), maxX = 7, maxY = 5 / 2, feature = Some 1\<rparr>,
               \<lparr>minX = 3, minY = - (5 / 2), maxX = 15, maxY = 5 / 2, feature = Some 2\<rparr>],
        margin = 5\<rparr>,
      [(''ab'', 0, 0, 1, None), (''cd'', 16, 0, 2, None)]) \<and>
   \<not> intersects (tested_rect length (''cd'', 16, 0, 2 :: nat, None))
        (stored_rect length 5 (''ab'', 0, 0, 1 :: nat, None))"
proof -
  have run: "place_all length (clear (new_LabelBuffer :: nat LabelBuffer))
     [(''ab'', 0, 0, 1, None), (''cd'', 16, 0, 2, None), (''ef'', 4, 0, 3, None)] =
     (\<lparr>tree = [\<lparr>minX = - 5, minY = - (5 / 2), maxX = 7, maxY = 5 / 2, feature = Some 1\<rparr>,
               \<lparr>minX = 3, minY = - (5 / 2), maxX = 15, maxY = 5 / 2, feature = Some 2\<rparr>],
        margin = 5\<rparr>,
      [(''ab'', 0, 0, 1, None), (''cd'', 16, 0, 2, None)])"
    by (simp add: writeIfPossible_unfold project_def collides_def intersects_def
        calculateArea_def margin_or_def clear_def new_LabelBuffer_def)
  note clear_of = accepted_text_clear_of_stored [OF run, THEN conjunct2, rule_format, of 1 0]
  have "margin (new_LabelBuffer :: nat LabelBuffer) = 5"
    by (simp add: new_LabelBuffer_def)
  with clear_of run show ?thesis by simp
qed

text \<open>
  The claim as stated fails: both labels are accepted, and their stored rectangles
  overlap (the first reaches to \<open>x = 7\<close>, the second starts at \<open>x = 3\<close>).
\<close>

theorem stored_rectangles_overlap:
  "writeIfPossible length
     (snd (writeIfPossible length (clear (new_LabelBuffer :: nat LabelBuffer)) ''ab'' 0 0 1 None))
     ''cd'' 16 0 2 None =
     (True,
      \<lparr>tree = [\<lparr>minX = - 5, minY = - (5 / 2), maxX = 7, maxY = 5 / 2, feature = Some 1\<rparr>,
               \<lparr>minX = 3, minY = - (5 / 2), maxX = 15, maxY = 5 / 2, feature = Some 2\<rparr>],
        margin = 5\<rparr>) \<and>
   intersects \<lparr>minX = - 5, minY = - (5 / 2), maxX = 7, maxY = 5 / 2, feature = Some (1 :: nat)\<rparr>
     \<lparr>minX = 3, minY = - (5 / 2), maxX = 15, maxY = 5 / 2, feature = Some (2 :: nat)\<rparr>"
  by (simp add: writeIfPossible_unfold project_def collides_def intersects_def
      calculateArea_def margin_or_def clear_def new_LabelBuffer_def)

text \<open>
  C3, as amended. The rectangle tested for collision is the text's own: from the
  projected grid position, as wide as the text is displayed, on the single grid row,
  with no margin. The rectangle inserted on acceptance is that one expanded by the full
  margin to the left and right and by half the margin up and down, tagged with the
  feature. On rejection the buffer is unchanged.
\<close>

theorem writeIfPossible_rectangles:
  "writeIfPossible sw b text x y f marg =
     (let px = fst (project x y); py = snd (project x y); m = margin_or marg (margin b);
          tested = \<lparr>minX = px, minY = py, maxX = px + of_nat (sw text), maxY = py,
                    feature = None\<rparr>;
          inserted = \<lparr>minX = px - m, minY = py - m / 2, maxX = px + m + of_nat (sw text),
                      maxY = py + m / 2, feature = Some f\<rparr>
      in if collides (tree b) tested then (False, b)
         else (True, b\<lparr>tree := tree b @ [inserted]\<rparr>))"
  by (simp add: writeIfPossible_unfold calculateArea_def Let_def)

text \<open>
  The claim as stated fails: with "Berlin" placed at (100, 100), "Wien" at (124, 100) is
  accepted, although the rectangle inserted for it collides with the index; the
  rectangle that was tested, and is free, is the one without the margin.
\<close>

theorem inserted_rectangle_not_the_tested_one:
  "snd (writeIfPossible length (new_LabelBuffer :: nat LabelBuffer) ''Berlin'' 100 100 1 None) =
     \<lparr>tree = [\<lparr>minX = 45, minY = 45 / 2, maxX = 61, maxY = 55 / 2, feature = Some 1\<rparr>],
      margin = 5\<rparr> \<and>
   writeIfPossible length
     \<lparr>tree = [\<lparr>minX = 45, minY = 45 / 2, maxX = 61, maxY = 55 / 2, feature = Some (1 :: nat)\<rparr>],
      margin = 5\<rparr> ''Wien'' 124 100 2 None =
     (True,
      \<lparr>tree = [\<lparr>minX = 45, minY = 45 / 2, maxX = 61, maxY = 55 / 2, feature = Some 1\<rparr>,
               \<lparr>minX = 57, minY = 45 / 2, maxX = 71, maxY = 55 / 2, feature = Some 2\<rparr>],
       margin = 5\<rparr>) \<and>
   collides [\<lparr>minX = 45, minY = 45 / 2, maxX = 61, maxY = 55 / 2, feature = Some (1 :: nat)\<rparr>]
     \<lparr>minX = 57, minY = 45 / 2, maxX = 71, maxY = 55 / 2, feature = Some 2\<rparr> \<and>
   \<not> collides [\<lparr>minX = 45, minY = 45 / 2, maxX = 61, maxY = 55 / 2, feature = Some (1 :: nat)\<rparr>]
     (calculateArea length ''Wien'' 62 25 0)"
  by (simp add: writeIfPossible_unfold project_def collides_def intersects_def
      calculateArea_def margin_or_def new_LabelBuffer_def)

text \<open>
  C6. \<open>featuresAt\<close> is to return the label rectangles that contain the point. With
  "Berlin" placed at (100, 100) under feature 7, the search at the grid point (50, 25)
  inside its rectangle finds that rectangle, but \<open>featuresAt\<close> returns nothing
  (\<open>undefined\<close>): the result of the search is dropped.
\<close>

theorem featuresAt_returns_undefined:
  "snd (writeIfPossible length (new_LabelBuffer :: nat LabelBuffer) ''Berlin'' 100 100 7 None) =
     \<lparr>tree = [\<lparr>minX = 45, minY = 45 / 2, maxX = 61, maxY = 55 / 2, feature = Some 7\<rparr>],
      margin = 5\<rparr> \<and>
   search [\<lparr>minX = 45, minY = 45 / 2, maxX = 61, maxY = 55 / 2, feature = Some (7 :: nat)\<rparr>]
     \<lparr>minX = 50, minY = 25, maxX = 50, maxY = 25, feature = None\<rparr> =
     [\<lparr>minX = 45, minY = 45 / 2, maxX = 61, maxY = 55 / 2, feature = Some 7\<rparr>] \<and>
   featuresAt
     \<lparr>tree = [\<lparr>minX = 45, minY = 45 / 2, maxX = 61, maxY = 55 / 2, feature = Some (7 :: nat)\<rparr>],
      margin = 5\<rparr> 50 25 = None"
  by (simp add: writeIfPossible_unfold project_def collides_def intersects_def search_def
      featuresAt_def calculateArea_def margin_or_def new_LabelBuffer_def)

text \<open>
  C9. \<open>project\<close> is a function of its two arguments alone, and its result is
  \<open>(floor(x / 2), floor(y / 4))\<close>, where the floor is the greatest integer not above
  the quotient: on integers it is the division that rounds toward negative infinity,
  so \<open>project(-1, -1)\<close> is \<open>(-1, -1)\<close> and not \<open>(0, 0)\<close>.
\<close>

theorem project_floor:
  "project x y = (of_int \<lfloor>x / 2\<rfloor>, of_int \<lfloor>y / 4\<rfloor>)
   \<and> fst (project x y) \<le> x / 2 \<and> x / 2 < fst (project x y) + 1
   \<and> snd (project x y) \<le> y / 4 \<and> y / 4 < snd (project x y) + 1
   \<and> project (of_int i) (of_int j) = (of_int (i div 2), of_int (j div 4))
   \<and> project (- 1) (- 1) = (- 1, - 1)"
proof -
  have d2: "\<lfloor>rat_of_int i / 2\<rfloor> = i div 2"
    using floor_divide_of_int_eq [of i 2, where ?'a = rat] by simp
  have d4: "\<lfloor>rat_of_int j / 4\<rfloor> = j div 4"
    using floor_divide_of_int_eq [of j 4, where ?'a = rat] by simp
  have n2: "\<lfloor>- (1 / 2) :: rat\<rfloor> = - 1"
    by (simp add: floor_unique)
  have n4: "\<lfloor>- (1 / 4) :: rat\<rfloor> = - 1"
    by (simp add: floor_unique)
  show ?thesis
    using floor_bounds [of "x / 2"] floor_bounds [of "y / 4"] d2 d4 n2 n4
    by (simp add: project_def)
qed

text \<open>
  C10. On a buffer whose default margin is 5, as the constructor sets it, a margin
  argument of 0 is not honoured: the call behaves exactly as the call without the
  argument and as the call with margin 5, and whatever margin argument is passed, the
  margin that is applied is not 0.
\<close>

theorem zero_margin_override_ignored:
  "margin b = 5 \<Longrightarrow>
     writeIfPossible sw b text x y f (Some 0) = writeIfPossible sw b text x y f None \<and>
     writeIfPossible sw b text x y f (Some 0) = writeIfPossible sw b text x y f (Some 5) \<and>
     margin_or (Some 0) (margin b) = 5 \<and>
     margin_or marg (margin b) \<noteq> 0"
  by (simp add: writeIfPossible_def margin_or_def split: option.splits)

text \<open>An instance: asked for with margin 0, "Berlin" is stored with margin 5.\<close>

theorem zero_margin_override_ignored_witness:
  "margin (new_LabelBuffer :: nat LabelBuffer) = 5 \<and>
   writeIfPossible length (new_LabelBuffer :: nat LabelBuffer) ''Berlin'' 100 100 7 (Some 0) =
     (True,
      \<lparr>tree = [\<lparr>minX = 45, minY = 45 / 2, maxX = 61, maxY = 55 / 2, feature = Some 7\<rparr>],
       margin = 5\<rparr>) \<and>
   writeIfPossible length (new_LabelBuffer :: nat LabelBuffer) ''Berlin'' 100 100 7 (Some 5) =
     (True,
      \<lparr>tree = [\<lparr>minX = 45, minY = 45 / 2, maxX = 61, maxY = 55 / 2, feature = Some 7\<rparr>],
       margin = 5\<rparr>)"
proof -
  have m: "margin (new_LabelBuffer :: nat LabelBuffer) = 5"
    by (simp add: new_LabelBuffer_def)
  have five: "writeIfPossible length (new_LabelBuffer :: nat LabelBuffer) ''Berlin'' 100 100 7 (Some 5) =
     (True,
      \<lparr>tree = [\<lparr>minX = 45, minY = 45 / 2, maxX = 61, maxY = 55 / 2, feature = Some 7\<rparr>],
       margin = 5\<rparr>)"
    by (simp add: writeIfPossible_unfold project_def collides_def calculateArea_def
        margin_or_def new_LabelBuffer_def)
  from zero_margin_override_ignored [OF m, of length "''Berlin''" 100 100 7 None]
  have "writeIfPossible length (new_LabelBuffer :: nat LabelBuffer) ''Berlin'' 100 100 7 (Some 0) =
        writeIfPossible length (new_LabelBuffer :: nat LabelBuffer) ''Berlin'' 100 100 7 (Some 5)"
    by blast
  with m five show ?thesis by simp
qed

section \<open>Properties of the tile source\<close>

subsection \<open>Helper facts\<close>

text \<open>
  The eviction block removes nothing, in any state: the overflow is \<open>NaN\<close>, of which
  \<open>splice\<close> makes a delete count of 0.
\<close>

lemma evict_noop: "evict s = s"
  by (cases "cache s ''length''") (simp_all add: evict_def splice0_def delete_each_index_def)

lemma createTile_Inr:
  "createTile e s z x y buf = (Inr t, s1) \<Longrightarrow> cache s1 (tile_name z x y) = Some t"
  by (auto simp: createTile_def load_def Let_def split: if_splits)

lemma getTile_settle_Inr:
  "getTile_settle e s r = (Inr t, s1, ios) \<Longrightarrow>
     (case r of
        DbTile z x y \<Rightarrow> cache s1 (tile_name z x y) = Some t
      | HttpTile z x y url \<Rightarrow> cache s1 (tile_name z x y) = Some t
      | PersistedTile z x y buf \<Rightarrow> cache s1 (tile_name z x y) = Some t)"
  by (auto simp: getTile_settle_def
      split: request.splits option.splits prod.splits if_splits sum.splits
      dest: createTile_Inr)

lemma getTile_call_Waiting:
  "getTile_call e s z x y = (Returns (Waiting r), s1, ios) \<Longrightarrow>
     (\<exists>url. r = HttpTile z x y url) \<or> (\<exists>buf. r = PersistedTile z x y buf) \<or> r = DbTile z x y"
  by (auto simp: getTile_call_def getHTTP_call_def getMBTile_call_def getPersited_def evict_noop
      split: option.splits sourceMode.splits if_splits)

lemma getTile_call_Resolved:
  "getTile_call e s z x y = (Returns (Resolved t), s1, ios) \<Longrightarrow>
     s1 = s \<and> cache s (tile_name z x y) = Some t"
  by (auto simp: getTile_call_def getHTTP_call_def getMBTile_call_def getPersited_def evict_noop
      split: option.splits sourceMode.splits if_splits)

lemma getTile_call_hit:
  "mode s \<noteq> None \<Longrightarrow> cache s (tile_name z x y) = Some t \<Longrightarrow>
     getTile_call e s z x y = (Returns (Resolved t), s, [])"
  by (simp add: getTile_call_def)

text \<open>A call that ends with a tile leaves that tile in the cache under the key.\<close>

lemma getTile_Inr_cached:
  assumes "getTile e s z x y = (Inr t, s1, ios)"
  shows "cache s1 (tile_name z x y) = Some t"
proof -
  obtain o1 sa ioa where c: "getTile_call e s z x y = (o1, sa, ioa)"
    by (cases "getTile_call e s z x y") auto
  show ?thesis
  proof (cases o1)
    case (Throws err)
    with assms c show ?thesis by (simp add: getTile_def)
  next
    case (Returns p)
    show ?thesis
    proof (cases p)
      case (Resolved t')
      with assms c Returns have "t' = t" "s1 = sa" by (simp_all add: getTile_def)
      with getTile_call_Resolved c Returns Resolved show ?thesis by blast
    next
      case (Rejected err)
      with assms c Returns show ?thesis by (simp add: getTile_def)
    next
      case (Waiting r)
      with assms c Returns obtain io2 where st: "getTile_settle e sa r = (Inr t, s1, io2)"
        by (auto simp: getTile_def split: prod.splits)
      from getTile_call_Waiting c Returns Waiting
      have "(\<exists>url. r = HttpTile z x y url) \<or> (\<exists>buf. r = PersistedTile z x y buf) \<or> r = DbTile z x y"
        by blast
      with getTile_settle_Inr [OF st] show ?thesis by auto
    qed
  qed
qed

lemma getTile_call_uncached_http:
  "mode s = Some HTTP \<Longrightarrow> cache s (tile_name z x y) = None \<Longrightarrow>
   \<not> persistDownloadedTiles s \<or> readFileSync e (persisted_path e z x y) = None \<Longrightarrow>
   getTile_call e s z x y =
     (Returns (Waiting (HttpTile z x y (tile_url s z x y))), s,
      [ReadFileSync (persisted_path e z x y), Fetch (tile_url s z x y)])"
  by (auto simp: getTile_call_def getHTTP_call_def getPersited_def evict_noop)

lemma getTile_call_uncached_db:
  "mode s = Some MBTiles \<Longrightarrow> mbtiles s \<noteq> None \<Longrightarrow> cache s (tile_name z x y) = None \<Longrightarrow>
   getTile_call e s z x y = (Returns (Waiting (DbTile z x y)), s, [DbGetTile z x y])"
  by (auto simp: getTile_call_def getMBTile_call_def evict_noop)

text \<open>
  On the network path a failed request leaves the store as it was: \<open>_createTile\<close> is
  not reached.
\<close>

lemma http_failed_fetch_keeps_store:
  "mode s = Some HTTP \<Longrightarrow> cache s (tile_name z x y) = None \<Longrightarrow>
   \<not> persistDownloadedTiles s \<or> readFileSync e (persisted_path e z x y) = None \<Longrightarrow>
   fetch e (tile_url s z x y) = None \<Longrightarrow>
   getTile e s z x y =
     (Inl FetchFailed, s, [ReadFileSync (persisted_path e z x y), Fetch (tile_url s z x y)])"
  by (simp add: getTile_def getTile_call_uncached_http getTile_settle_def)

subsection \<open>The claims\<close>

text \<open>
  C1. After more than 16 distinct tiles were fetched one after the other, the cache is
  to hold the 16 most recent keys only. Run on eighteen tiles, every call succeeding,
  the store keeps all eighteen names in its insertion-order sequence and all eighteen
  tiles in its mapping, the two oldest among them, with \<open>cacheSize\<close> 16.
\<close>

theorem eighteen_tiles_all_kept:
  "fst (getTiles http_env http_store eighteen_keys) =
     map (\<lambda>i. Inr \<lparr>tile_id = i, tile_styler = None\<rparr>) [0..<18] \<and>
   cacheSize (snd (getTiles http_env http_store eighteen_keys)) = 16 \<and>
   cached (snd (getTiles http_env http_store eighteen_keys)) =
     [''5-0-0'', ''5-1-0'', ''5-2-0'', ''5-3-0'', ''5-4-0'', ''5-5-0'', ''5-6-0'', ''5-7-0'',
      ''5-8-0'', ''5-9-0'', ''5-10-0'', ''5-11-0'', ''5-12-0'', ''5-13-0'', ''5-14-0'',
      ''5-15-0'', ''5-16-0'', ''5-17-0''] \<and>
   cache (snd (getTiles http_env http_store eighteen_keys)) ''5-0-0'' =
     Some \<lparr>tile_id = 0, tile_styler = None\<rparr> \<and>
   cache (snd (getTiles http_env http_store eighteen_keys)) ''5-1-0'' =
     Some \<lparr>tile_id = 1, tile_styler = None\<rparr> \<and>
   cache (snd (getTiles http_env http_store eighteen_keys)) ''5-17-0'' =
     Some \<lparr>tile_id = 17, tile_styler = None\<rparr>"
  by code_simp

text \<open>
  C4. A failed fetch is to leave the cache mapping and the insertion-order sequence
  unchanged. On the database path, with a database that answers the request for tile
  (1, 0, 0) with an error, the call fails with \<open>FetchFailed\<close>, yet the store, empty
  before, then holds the name and a tile under it, and the next call for the key is
  answered from the cache with that tile.
\<close>

theorem mbtiles_failed_fetch_leaves_entry:
  "mode db_store = Some MBTiles \<and>
   cached db_store = [] \<and>
   cache db_store ''1-0-0'' = None \<and>
   fst (getTile db_env db_store 1 0 0) = Inl FetchFailed \<and>
   cached (fst (snd (getTile db_env db_store 1 0 0))) = [''1-0-0''] \<and>
   cache (fst (snd (getTile db_env db_store 1 0 0))) ''1-0-0'' =
     Some \<lparr>tile_id = 0, tile_styler = None\<rparr> \<and>
   getTile_call db_env (fst (snd (getTile db_env db_store 1 0 0))) 1 0 0 =
     (Returns (Resolved \<lparr>tile_id = 0, tile_styler = None\<rparr>),
      fst (snd (getTile db_env db_store 1 0 0)), [])"
proof -
  have "cache (fst (snd (getTile db_env db_store 1 0 0))) (tile_name 1 0 0) =
          Some \<lparr>tile_id = 0, tile_styler = None\<rparr>"
    by code_simp
  moreover have "mode (fst (snd (getTile db_env db_store 1 0 0))) \<noteq> None"
    by code_simp
  ultimately have "getTile_call db_env (fst (snd (getTile db_env db_store 1 0 0))) 1 0 0 =
     (Returns (Resolved \<lparr>tile_id = 0, tile_styler = None\<rparr>),
      fst (snd (getTile db_env db_store 1 0 0)), [])"
    by (rule getTile_call_hit [rotated])
  moreover have "mode db_store = Some MBTiles \<and>
   cached db_store = [] \<and>
   cache db_store ''1-0-0'' = None \<and>
   fst (getTile db_env db_store 1 0 0) = Inl FetchFailed \<and>
   cached (fst (snd (getTile db_env db_store 1 0 0))) = [''1-0-0''] \<and>
   cache (fst (snd (getTile db_env db_store 1 0 0))) ''1-0-0'' =
     Some \<lparr>tile_id = 0, tile_styler = None\<rparr>"
    by code_simp
  ultimately show ?thesis by blast
qed

text \<open>
  C5, as amended. A call that ends with a tile leaves the store such that, as long as
  the entry of the key is in place and a mode is selected, every later call for the
  key returns that same tile, leaves the store unchanged and performs no input or
  output. A call on a store with no mode selected fails with \<open>NoSourceConfigured\<close>; that
  is the state of a new store and of a store whose \<open>init\<close> threw. (While a database is
  being opened the mode is already selected, and the call does not fail that way.)
\<close>

theorem getTile_cache_hit_and_no_mode:
  "(getTile e s z x y = (Inr t, s1, ios) \<longrightarrow>
      (\<forall>e2 (s2 :: TileSource).
         mode s2 \<noteq> None \<and> cache s2 (tile_name z x y) = cache s1 (tile_name z x y) \<longrightarrow>
         getTile e2 s2 z x y = (Inr t, s2, []))) \<and>
   (mode s = None \<longrightarrow> getTile e s z x y = (Inl NoSourceConfigured, s, [])) \<and>
   mode new_TileSource = None \<and>
   (fst (init_call e s src) = InitThrows err \<longrightarrow> mode (fst (snd (init_call e s src))) = None)"
proof (intro conjI impI allI)
  fix e2 and s2 :: TileSource
  assume a: "getTile e s z x y = (Inr t, s1, ios)"
    and b: "mode s2 \<noteq> None \<and> cache s2 (tile_name z x y) = cache s1 (tile_name z x y)"
  from getTile_Inr_cached [OF a] b have "cache s2 (tile_name z x y) = Some t"
    by simp
  with b have "getTile_call e2 s2 z x y = (Returns (Resolved t), s2, [])"
    by (intro getTile_call_hit) simp_all
  then show "getTile e2 s2 z x y = (Inr t, s2, [])"
    by (simp add: getTile_def)
next
  assume "mode s = None"
  then show "getTile e s z x y = (Inl NoSourceConfigured, s, [])"
    by (simp add: getTile_def getTile_call_def)
next
  show "mode new_TileSource = None"
    by (simp add: new_TileSource_def)
next
  assume "fst (init_call e s src) = InitThrows err"
  then show "mode (fst (snd (init_call e s src))) = None"
    by (auto simp: init_call_def Let_def split: if_splits prod.splits)
qed

text \<open>
  An instance: the first call for tile (5, 0, 0) fetches it, the second returns the same
  tile with no operation issued; on a new store the call fails; and the store after
  \<open>init('foo.txt')\<close>, which throws, has no mode.
\<close>

theorem getTile_cache_hit_and_no_mode_witness:
  "fst (getTile http_env http_store 5 0 0) = Inr \<lparr>tile_id = 0, tile_styler = None\<rparr> \<and>
   getTile http_env (fst (snd (getTile http_env http_store 5 0 0))) 5 0 0 =
     (Inr \<lparr>tile_id = 0, tile_styler = None\<rparr>, fst (snd (getTile http_env http_store 5 0 0)), []) \<and>
   getTile http_env new_TileSource 5 0 0 = (Inl NoSourceConfigured, new_TileSource, []) \<and>
   fst (init_call http_env new_TileSource ''foo.txt'') = InitThrows UnsupportedSource \<and>
   mode (fst (snd (init_call http_env new_TileSource ''foo.txt''))) = None"
proof -
  obtain r s1 ios where g: "getTile http_env http_store 5 0 0 = (r, s1, ios)"
    by (cases "getTile http_env http_store 5 0 0") auto
  have "fst (getTile http_env http_store 5 0 0) = Inr \<lparr>tile_id = 0, tile_styler = None\<rparr>"
    by code_simp
  with g have r: "r = Inr \<lparr>tile_id = 0, tile_styler = None\<rparr>"
    by simp
  have "mode (fst (snd (getTile http_env http_store 5 0 0))) \<noteq> None"
    by code_simp
  with g have m: "mode s1 \<noteq> None"
    by simp
  have n: "mode new_TileSource = None"
    by (simp add: new_TileSource_def)
  have t: "fst (init_call http_env new_TileSource ''foo.txt'') = InitThrows UnsupportedSource"
    by code_simp
  note inst = getTile_cache_hit_and_no_mode
    [of http_env http_store 5 0 0 "\<lparr>tile_id = 0, tile_styler = None\<rparr>" s1 ios
        "''foo.txt''" UnsupportedSource]
  from inst g r m have "getTile http_env s1 5 0 0 = (Inr \<lparr>tile_id = 0, tile_styler = None\<rparr>, s1, [])"
    by blast
  moreover from getTile_cache_hit_and_no_mode [of http_env new_TileSource 5 0 0] n
  have "getTile http_env new_TileSource 5 0 0 = (Inl NoSourceConfigured, new_TileSource, [])"
    by blast
  moreover from getTile_cache_hit_and_no_mode
    [of http_env new_TileSource 5 0 0 _ _ _ "''foo.txt''" UnsupportedSource] t
  have "mode (fst (snd (init_call http_env new_TileSource ''foo.txt''))) = None"
    by blast
  ultimately show ?thesis using g r t by simp
qed

text \<open>
  The claim as stated fails: after \<open>init('foo.mbtiles')\<close> has returned its promise and
  before the database is open, initialisation has not completed, and \<open>getTile\<close> does
  not fail with \<open>NoSourceConfigured\<close>: the mode is set, the handle is not, and the
  promise is rejected with the error of calling a method on \<open>null\<close>.
\<close>

theorem getTile_while_opening_not_NoSourceConfigured:
  "fst (init_call db_env new_TileSource ''foo.mbtiles'') = InitOpening ''foo.mbtiles'' \<and>
   mode (fst (snd (init_call db_env new_TileSource ''foo.mbtiles''))) = Some MBTiles \<and>
   mbtiles (fst (snd (init_call db_env new_TileSource ''foo.mbtiles''))) = None \<and>
   fst (getTile_call db_env (fst (snd (init_call db_env new_TileSource ''foo.mbtiles''))) 0 0 0) =
     Returns (Rejected TypeError)"
  by code_simp

text \<open>
  C7, as amended. Calls for one uncached key that arrive before any callback has run
  are not coalesced: with the key uncached, and either the network mode with no
  persisted payload in use or the database mode with an open handle, \<open>n\<close> such calls
  leave the store unchanged, each returns a promise waiting for a request of its own,
  and \<open>n\<close> requests are issued.
\<close>

theorem uncached_calls_each_fetch:
  assumes "cache s (tile_name z x y) = None"
    and "(mode s = Some HTTP \<and>
           (\<not> persistDownloadedTiles s \<or> readFileSync e (persisted_path e z x y) = None)) \<or>
         (mode s = Some MBTiles \<and> mbtiles s \<noteq> None)"
  shows "getTile_calls e s (replicate n (z, x, y)) = (rs, s1, ios) \<Longrightarrow>
           s1 = s \<and> length rs = n \<and> list_all is_waiting rs \<and> length (filter is_fetch ios) = n"
proof (induction n arbitrary: rs s1 ios)
  case 0
  then show ?case by simp
next
  case (Suc n)
  obtain r ioa where c: "getTile_call e s z x y = (r, s, ioa)" "is_waiting r"
      "length (filter is_fetch ioa) = 1"
    using assms getTile_call_uncached_http [of s z x y e] getTile_call_uncached_db [of s z x y e]
    by auto
  obtain rs' s' ios' where p: "getTile_calls e s (replicate n (z, x, y)) = (rs', s', ios')"
    by (cases "getTile_calls e s (replicate n (z, x, y))") auto
  from Suc.IH [OF p] Suc.prems c p show ?case by auto
qed

text \<open>An instance: three calls for tile (5, 0, 0) issue three requests.\<close>

theorem uncached_calls_each_fetch_witness:
  "cache http_store (tile_name 5 0 0) = None \<and>
   mode http_store = Some HTTP \<and>
   readFileSync http_env (persisted_path http_env 5 0 0) = None \<and>
   fst (snd (getTile_calls http_env http_store (replicate 3 (5, 0, 0)))) = http_store \<and>
   list_all is_waiting (fst (getTile_calls http_env http_store (replicate 3 (5, 0, 0)))) \<and>
   length (filter is_fetch (snd (snd (getTile_calls http_env http_store (replicate 3 (5, 0, 0)))))) = 3"
proof -
  have a: "cache http_store (tile_name 5 0 0) = None"
    by code_simp
  have b: "mode http_store = Some HTTP"
    by code_simp
  have c: "readFileSync http_env (persisted_path http_env 5 0 0) = None"
    by (simp add: http_env_def)
  obtain rs s1 ios where g: "getTile_calls http_env http_store (replicate 3 (5, 0, 0)) = (rs, s1, ios)"
    by (cases "getTile_calls http_env http_store (replicate 3 (5, 0, 0))") auto
  from uncached_calls_each_fetch [of http_store 5 0 0 http_env 3 rs s1 ios] a b c g
  have "s1 = http_store \<and> length rs = 3 \<and> list_all is_waiting rs \<and> length (filter is_fetch ios) = 3"
    by blast
  with a b c g show ?thesis by simp
qed

text \<open>
  The claim as stated fails: two calls for tile (5, 0, 0) before any callback issue two
  requests for the same address; when the two callbacks have run, the callers have
  received two different tiles and the key stands twice in the insertion-order
  sequence.
\<close>

theorem two_calls_two_fetches:
  "getTile_calls http_env http_store [(5, 0, 0), (5, 0, 0)] =
     ([Returns (Waiting (HttpTile 5 0 0 ''http://mapscii.me/5/0/0.pbf'')),
       Returns (Waiting (HttpTile 5 0 0 ''http://mapscii.me/5/0/0.pbf''))],
      http_store,
      [ReadFileSync ''/cache/5/0-0.pbf'', Fetch ''http://mapscii.me/5/0/0.pbf'',
       ReadFileSync ''/cache/5/0-0.pbf'', Fetch ''http://mapscii.me/5/0/0.pbf'']) \<and>
   fst (getTile_settle http_env http_store (HttpTile 5 0 0 ''http://mapscii.me/5/0/0.pbf'')) =
     Inr \<lparr>tile_id = 0, tile_styler = None\<rparr> \<and>
   fst (getTile_settle http_env
          (fst (snd (getTile_settle http_env http_store
             (HttpTile 5 0 0 ''http://mapscii.me/5/0/0.pbf''))))
          (HttpTile 5 0 0 ''http://mapscii.me/5/0/0.pbf'')) =
     Inr \<lparr>tile_id = 1, tile_styler = None\<rparr> \<and>
   cached (fst (snd (getTile_settle http_env
          (fst (snd (getTile_settle http_env http_store
             (HttpTile 5 0 0 ''http://mapscii.me/5/0/0.pbf''))))
          (HttpTile 5 0 0 ''http://mapscii.me/5/0/0.pbf'')))) = [''5-0-0'', ''5-0-0'']"
proof -
  have a: "cache http_store (tile_name 5 0 0) = None"
    by code_simp
  have b: "mode http_store = Some HTTP"
    by code_simp
  have c: "\<not> persistDownloadedTiles http_store \<or>
           readFileSync http_env (persisted_path http_env 5 0 0) = None"
    by (simp add: http_env_def)
  have u: "tile_url http_store 5 0 0 = ''http://mapscii.me/5/0/0.pbf''"
    by code_simp
  have p: "persisted_path http_env 5 0 0 = ''/cache/5/0-0.pbf''"
    by code_simp
  have "getTile_calls http_env http_store [(5, 0, 0), (5, 0, 0)] =
     ([Returns (Waiting (HttpTile 5 0 0 ''http://mapscii.me/5/0/0.pbf'')),
       Returns (Waiting (HttpTile 5 0 0 ''http://mapscii.me/5/0/0.pbf''))],
      http_store,
      [ReadFileSync ''/cache/5/0-0.pbf'', Fetch ''http://mapscii.me/5/0/0.pbf'',
       ReadFileSync ''/cache/5/0-0.pbf'', Fetch ''http://mapscii.me/5/0/0.pbf''])"
    using getTile_call_uncached_http [OF b a c] u p by simp
  moreover have
   "fst (getTile_settle http_env http_store (HttpTile 5 0 0 ''http://mapscii.me/5/0/0.pbf'')) =
     Inr \<lparr>tile_id = 0, tile_styler = None\<rparr> \<and>
   fst (getTile_settle http_env
          (fst (snd (getTile_settle http_env http_store
             (HttpTile 5 0 0 ''http://mapscii.me/5/0/0.pbf''))))
          (HttpTile 5 0 0 ''http://mapscii.me/5/0/0.pbf'')) =
     Inr \<lparr>tile_id = 1, tile_styler = None\<rparr> \<and>
   cached (fst (snd (getTile_settle http_env
          (fst (snd (getTile_settle http_env http_store
             (HttpTile 5 0 0 ''http://mapscii.me/5/0/0.pbf''))))
          (HttpTile 5 0 0 ''http://mapscii.me/5/0/0.pbf'')))) = [''5-0-0'', ''5-0-0'']"
    by code_simp
  ultimately show ?thesis by blast
qed

text \<open>
  C8, as amended. \<open>init\<close> selects the mode by two tests on the locator, in this order:
  a locator that starts with the four characters \<open>http\<close> selects the network mode;
  otherwise a locator that ends in \<open>.mbtiles\<close> selects the database mode when the
  driver is installed and makes \<open>init\<close> fail with \<open>MissingDependency\<close> when it is not;
  every other locator makes \<open>init\<close> fail with \<open>UnsupportedSource\<close>. After a failure no
  mode is selected.
\<close>

theorem init_mode_selection:
  "fst (init_call e s src) =
     (if startsWith src ''http'' then InitResolved
      else if endsWith src ''.mbtiles''
           then (if driver e then InitOpening src else InitThrows MissingDependency)
           else InitThrows UnsupportedSource) \<and>
   mode (fst (snd (init_call e s src))) =
     (if startsWith src ''http'' then Some HTTP
      else if endsWith src ''.mbtiles'' \<and> driver e then Some MBTiles
      else None)"
  by (simp add: init_call_def Let_def split: prod.splits)

text \<open>
  The claim as stated fails: the locator \<open>httpfoo.txt\<close> has no HTTP scheme and does not
  end in \<open>.mbtiles\<close>, yet \<open>init\<close> succeeds on it and selects the network mode.
\<close>

theorem init_http_prefix_without_scheme:
  "\<not> has_http_scheme ''httpfoo.txt'' \<and>
   \<not> endsWith ''httpfoo.txt'' ''.mbtiles'' \<and>
   fst (init http_env new_TileSource ''httpfoo.txt'') = Inr () \<and>
   mode (fst (snd (init http_env new_TileSource ''httpfoo.txt''))) = Some HTTP"
  by code_simp

subsection \<open>Further properties\<close>

lemma getTile_call_keeps_store: "fst (snd (getTile_call e s z x y)) = s"
  by (auto simp: getTile_call_def getHTTP_call_def getMBTile_call_def getPersited_def evict_noop
      split: option.splits sourceMode.splits)

lemma createTile_tracks:
  "dom (cache s) = set (cached s) \<Longrightarrow> createTile e s z x y buf = (r, s1) \<Longrightarrow>
     dom (cache s1) = set (cached s1)"
proof -
  assume inv: "dom (cache s) = set (cached s)" and c: "createTile e s z x y buf = (r, s1)"
  from c have "dom (cache s1) = insert (tile_name z x y) (dom (cache s))"
    and "set (cached s1) = insert (tile_name z x y) (set (cached s))"
    by (auto simp: createTile_def Let_def)
  with inv show ?thesis
    by simp
qed

lemma getTile_settle_tracks:
  assumes inv: "dom (cache s) = set (cached s)"
    and st: "getTile_settle e s r = (res, s1, ios)"
  shows "dom (cache s1) = set (cached s1)"
proof -
  have "s1 = s \<or> (\<exists>z x y buf res'. createTile e s z x y buf = (res', s1))"
    using st
    by (auto simp: getTile_settle_def
        split: request.splits option.splits prod.splits if_splits sum.splits)
  then show ?thesis
    using inv createTile_tracks by blast
qed

text \<open>
  The names in the insertion-order sequence are exactly the keys of the mapping, before
  and after every awaited \<open>getTile\<close>: no entry is untracked and no name is orphaned.
\<close>

theorem getTile_keeps_names_tracked:
  "dom (cache s) = set (cached s) \<Longrightarrow> getTile e s z x y = (r, s1, ios) \<Longrightarrow>
     dom (cache s1) = set (cached s1)"
proof -
  assume inv: "dom (cache s) = set (cached s)" and g: "getTile e s z x y = (r, s1, ios)"
  obtain o1 sa ioa where c: "getTile_call e s z x y = (o1, sa, ioa)"
    by (cases "getTile_call e s z x y") auto
  with getTile_call_keeps_store [of e s z x y] have sa: "sa = s"
    by simp
  show ?thesis
  proof (cases "\<exists>q. o1 = Returns (Waiting q)")
    case True
    then obtain q where q: "o1 = Returns (Waiting q)"
      by blast
    with g c sa obtain io2 where "getTile_settle e s q = (r, s1, io2)"
      by (auto simp: getTile_def split: prod.splits)
    with inv show ?thesis
      by (rule getTile_settle_tracks)
  next
    case False
    with g c sa have "s1 = s"
      by (auto simp: getTile_def split: outcome.splits promise.splits)
    with inv show ?thesis
      by simp
  qed
qed

theorem getTile_keeps_names_tracked_witness:
  "dom (cache http_store) = set (cached http_store) \<and>
   dom (cache (fst (snd (getTile http_env http_store 5 0 0)))) =
     set (cached (fst (snd (getTile http_env http_store 5 0 0))))"
proof -
  have c: "cache http_store = Map.empty" "cached http_store = []"
    by (simp_all add: http_store_def init_def init_call_def startsWith_def new_TileSource_def
        initPersistence_def createFolder_def http_env_def)
  then have inv: "dom (cache http_store) = set (cached http_store)"
    by simp
  obtain r s1 ios where g: "getTile http_env http_store 5 0 0 = (r, s1, ios)"
    by (cases "getTile http_env http_store 5 0 0") auto
  from getTile_keeps_names_tracked [OF inv g] inv g show ?thesis
    by simp
qed

text \<open>
  \<open>init\<close> starts from an empty cache whatever the store held before: the mapping and
  the sequence are emptied, the cache size is 16, and the handle and the styler are
  reset.
\<close>

theorem init_resets_store:
  "cache (fst (snd (init_call e s src))) = Map.empty \<and>
   cached (fst (snd (init_call e s src))) = [] \<and>
   cacheSize (fst (snd (init_call e s src))) = 16 \<and>
   mbtiles (fst (snd (init_call e s src))) = None \<and>
   styler (fst (snd (init_call e s src))) = None \<and>
   source (fst (snd (init_call e s src))) = Some src"
  by (simp add: init_call_def initPersistence_def Let_def split: prod.splits sum.splits)

text \<open>
  Right after \<open>clear()\<close> every placement is accepted, so one that was accepted before
  is accepted again.
\<close>

theorem placement_after_clear_accepted:
  "writeIfPossible sw (clear b) text x y f marg =
     (True,
      b\<lparr>tree := [(calculateArea sw text (fst (project x y)) (snd (project x y))
                    (margin_or marg (margin b)))\<lparr>feature := Some f\<rparr>]\<rparr>)"
  by (simp add: writeIfPossible_unfold clear_def collides_def)

text \<open>
  Two labels at the same position: "Berlin" at (100, 100) is accepted, "Berlin2" at
  (100, 100) right after it is rejected, and the index still holds one rectangle.
\<close>

theorem same_position_second_rejected:
  "writeIfPossible length
     (snd (writeIfPossible length (new_LabelBuffer :: nat LabelBuffer) ''Berlin'' 100 100 1 None))
     ''Berlin2'' 100 100 2 None =
     (False,
      \<lparr>tree = [\<lparr>minX = 45, minY = 45 / 2, maxX = 61, maxY = 55 / 2, feature = Some 1\<rparr>],
       margin = 5\<rparr>)"
  by (simp add: writeIfPossible_unfold project_def collides_def intersects_def
      calculateArea_def margin_or_def new_LabelBuffer_def)

text \<open>
  On the network path a failed request leaves the store exactly as it was and the call
  fails with \<open>FetchFailed\<close>.
\<close>

theorem http_failed_fetch_no_entry:
  "mode s = Some HTTP \<Longrightarrow> cache s (tile_name z x y) = None \<Longrightarrow>
   fetch e (tile_url s z x y) = None \<Longrightarrow>
   persistDownloadedTiles s \<longrightarrow> readFileSync e (persisted_path e z x y) = None \<Longrightarrow>
   fst (getTile e s z x y) = Inl FetchFailed \<and> fst (snd (getTile e s z x y)) = s"
  using http_failed_fetch_keeps_store [of s z x y e] by auto

theorem http_failed_fetch_no_entry_witness:
  "mode (fst (snd (init db_env new_TileSource ''http://mapscii.me/''))) = Some HTTP \<and>
   fst (getTile db_env (fst (snd (init db_env new_TileSource ''http://mapscii.me/''))) 5 0 0) =
     Inl FetchFailed \<and>
   fst (snd (getTile db_env (fst (snd (init db_env new_TileSource ''http://mapscii.me/''))) 5 0 0)) =
     fst (snd (init db_env new_TileSource ''http://mapscii.me/''))"
proof -
  have a: "mode (fst (snd (init db_env new_TileSource ''http://mapscii.me/''))) = Some HTTP"
    by code_simp
  have b: "cache (fst (snd (init db_env new_TileSource ''http://mapscii.me/''))) (tile_name 5 0 0) = None"
    by code_simp
  have c: "fetch db_env (tile_url (fst (snd (init db_env new_TileSource ''http://mapscii.me/''))) 5 0 0) = None"
    by (simp add: db_env_def)
  have d: "persistDownloadedTiles (fst (snd (init db_env new_TileSource ''http://mapscii.me/''))) \<longrightarrow>
           readFileSync db_env (persisted_path db_env 5 0 0) = None"
    by (simp add: db_env_def)
  from http_failed_fetch_no_entry [OF a b c d] a show ?thesis
    by simp
qed

end
